theory Spec2Isabelle
  imports Main "HOL-Library.Word" "HOL-Library.Multiset" "HOL-Library.Sublist"
    "HOL-Library.List_Lexorder" "HOL-Library.Char_ord"
begin

section \<open>The procfs source of the Lustre exporter (sources/procfs.go)\<close>

text \<open>
  A shallow embedding of \<^verbatim>\<open>sources/procfs.go\<close>. Go strings are byte strings
  (\<^typ>\<open>string\<close>), \<^verbatim>\<open>uint64\<close> is \<^typ>\<open>64 word\<close>. A Go function that returns
  \<^verbatim>\<open>(value, error)\<close> returns an \<open>outcome\<close>: the value, the error, or the run-time
  panic that an index out of range raises. The file system is a parameter: the answers
  of the operating system to the calls of \<^verbatim>\<open>filepath.Glob\<close> and
  \<^verbatim>\<open>ioutil.ReadFile\<close>. The channel the scrape writes to is the list of metrics sent
  so far.
\<close>

subsection \<open>Values, errors, outcomes\<close>

type_synonym uint64 = "64 word"

datatype error =
    ErrPathElements
  | ErrSyntax string
  | ErrRange string
  | ErrBadPattern
  | ErrOS string

text \<open>
  \<open>ErrPathElements\<close> is \<^verbatim>\<open>fmt.Errorf("path did not return at least one element")\<close>;
  \<open>ErrSyntax\<close> and \<open>ErrRange\<close> are the two \<^verbatim>\<open>strconv.NumError\<close>s, with the
  text that did not parse; \<open>ErrBadPattern\<close> is \<^verbatim>\<open>filepath.ErrBadPattern\<close>;
  \<open>ErrOS\<close> is any error of the operating system (no such file, permission denied,
  I/O error), with its message.
\<close>

datatype 'a outcome = Returns 'a | Fails error | Panics

text \<open>Go's \<^verbatim>\<open>xs[i]\<close>: the element, or no element where the run time panics.\<close>

definition index :: "'a list \<Rightarrow> int \<Rightarrow> 'a option" where
  "index xs i = (if 0 \<le> i \<and> i < int (length xs) then Some (xs ! nat i) else None)"

subsection \<open>The Go library functions the source calls\<close>

text \<open>
  \<^verbatim>\<open>strings.Split(s, "/")\<close> for a separator of one byte: the pieces between the
  separators, empty pieces included; never an empty list.
\<close>

fun strings_Split :: "string \<Rightarrow> char \<Rightarrow> string list" where
  "strings_Split [] sep = [[]]"
| "strings_Split (c # cs) sep =
     (if c = sep then [] # strings_Split cs sep
      else (case strings_Split cs sep of
              [] \<Rightarrow> [[c]]
            | w # ws \<Rightarrow> (c # w) # ws))"

text \<open>
  \<^verbatim>\<open>regexp.Compile(" +")\<close> and its \<^verbatim>\<open>Split(s, -1)\<close>: the pieces of \<open>s\<close> between
  the maximal runs of spaces (the byte 0x20 only). A run at the start or at the end
  leaves an empty piece there.
\<close>

function regexp_Split_spaces :: "string \<Rightarrow> string list" where
  "regexp_Split_spaces [] = [[]]"
| "regexp_Split_spaces (c # cs) =
     (if c = CHR '' '' then [] # regexp_Split_spaces (dropWhile (\<lambda>x. x = CHR '' '') cs)
      else (case regexp_Split_spaces cs of
              [] \<Rightarrow> [[c]]
            | w # ws \<Rightarrow> (c # w) # ws))"
  by pat_completeness auto
termination
  by (relation "measure length") (auto simp: le_imp_less_Suc length_dropWhile_le)

text \<open>
  \<^verbatim>\<open>regexp.Compile(regexString)\<close> and its \<^verbatim>\<open>FindString(s)\<close>, for the patterns the
  source compiles: \<^verbatim>\<open>"read_bytes .*"\<close> and \<^verbatim>\<open>"write_bytes .*"\<close>, a literal text
  followed by \<^verbatim>\<open>.*\<close>. Such a pattern compiles without error, and is not anchored:
  the match is the leftmost occurrence of the literal text in \<open>s\<close>, extended to the end
  of its line (\<^verbatim>\<open>.\<close> matches every byte but the newline); no occurrence gives the
  empty string.
\<close>

fun findLiteralLine :: "string \<Rightarrow> string \<Rightarrow> string" where
  "findLiteralLine lit [] = []"
| "findLiteralLine lit (c # cs) =
     (if prefix lit (c # cs)
      then lit @ takeWhile (\<lambda>x. x \<noteq> CHR 0x0A) (drop (length lit) (c # cs))
      else findLiteralLine lit cs)"

definition FindString :: "string \<Rightarrow> string \<Rightarrow> string" where
  "FindString regexString s = findLiteralLine (butlast (butlast regexString)) s"

text \<open>
  \<^verbatim>\<open>strconv.ParseUint(s, 10, 64)\<close>: a non-empty run of decimal digits, no sign, read
  from the left in 64-bit arithmetic as the library does; the first byte that is not
  a digit is a syntax error, a value that leaves 64 bits a range error.
\<close>

definition isDigit :: "char \<Rightarrow> bool" where
  "isDigit c = (48 \<le> (of_char c :: nat) \<and> (of_char c :: nat) \<le> 57)"

fun parseDigits :: "string \<Rightarrow> uint64 \<Rightarrow> string \<Rightarrow> error + uint64" where
  "parseDigits s n [] = Inr n"
| "parseDigits s n (d # ds) =
     (if \<not> isDigit d then Inl (ErrSyntax s)
      else if n \<ge> 0xFFFFFFFFFFFFFFFF div 10 + 1 then Inl (ErrRange s)
      else
        (let n1 = n * 10 + (of_char d - 48)
         in if n1 < n * 10 then Inl (ErrRange s) else parseDigits s n1 ds))"

definition ParseUint :: "string \<Rightarrow> error + uint64" where
  "ParseUint s = (if s = [] then Inl (ErrSyntax s) else parseDigits s 0 s)"

text \<open>
  \<^verbatim>\<open>strings.TrimSpace(s)\<close>: \<open>s\<close> without the white space at its two ends. White
  space is Unicode's: the listed UTF-8 encodings of U+0009 to U+000D, U+0020, U+0085,
  U+00A0, U+1680, U+2000 to U+200A, U+2028, U+2029, U+202F, U+205F and U+3000.
\<close>

definition spaceRunes :: "string list" where
  "spaceRunes =
     [[CHR 0x09], [CHR 0x0A], [CHR 0x0B], [CHR 0x0C], [CHR 0x0D], [CHR 0x20],
      [CHR 0xC2, CHR 0x85], [CHR 0xC2, CHR 0xA0],
      [CHR 0xE1, CHR 0x9A, CHR 0x80],
      [CHR 0xE2, CHR 0x80, CHR 0x80], [CHR 0xE2, CHR 0x80, CHR 0x81],
      [CHR 0xE2, CHR 0x80, CHR 0x82], [CHR 0xE2, CHR 0x80, CHR 0x83],
      [CHR 0xE2, CHR 0x80, CHR 0x84], [CHR 0xE2, CHR 0x80, CHR 0x85],
      [CHR 0xE2, CHR 0x80, CHR 0x86], [CHR 0xE2, CHR 0x80, CHR 0x87],
      [CHR 0xE2, CHR 0x80, CHR 0x88], [CHR 0xE2, CHR 0x80, CHR 0x89],
      [CHR 0xE2, CHR 0x80, CHR 0x8A],
      [CHR 0xE2, CHR 0x80, CHR 0xA8], [CHR 0xE2, CHR 0x80, CHR 0xA9],
      [CHR 0xE2, CHR 0x80, CHR 0xAF], [CHR 0xE2, CHR 0x81, CHR 0x9F],
      [CHR 0xE3, CHR 0x80, CHR 0x80]]"

function trimLeft :: "string list \<Rightarrow> string \<Rightarrow> string" where
  "trimLeft ws s =
     (case find (\<lambda>w. w \<noteq> [] \<and> prefix w s) ws of
        None \<Rightarrow> s
      | Some w \<Rightarrow> trimLeft ws (drop (length w) s))"
  by pat_completeness auto
termination
proof (relation "measure (\<lambda>(ws, s). length s)")
  show "wf (measure (\<lambda>(ws, s). length s))"
    by simp
next
  fix ws :: "string list" and s w :: string
  assume "find (\<lambda>w. w \<noteq> [] \<and> prefix w s) ws = Some w"
  then have "w \<noteq> []" and "prefix w s"
    by (auto simp: find_Some_iff)
  then have "s \<noteq> []"
    by auto
  with \<open>w \<noteq> []\<close> show "((ws, drop (length w) s), (ws, s)) \<in> measure (\<lambda>(ws, s). length s)"
    by simp
qed

definition TrimSpace :: "string \<Rightarrow> string" where
  "TrimSpace s = rev (trimLeft (map rev spaceRunes) (rev (trimLeft spaceRunes s)))"

text \<open>
  \<^verbatim>\<open>filepath.Clean\<close> and \<^verbatim>\<open>filepath.Join\<close> (separator \<^verbatim>\<open>/\<close>). \<open>Clean\<close> drops
  empty and \<^verbatim>\<open>.\<close> elements, resolves \<^verbatim>\<open>..\<close> against the element before it (and
  drops it at the root), and returns \<^verbatim>\<open>.\<close> for an empty result. \<open>Join\<close> joins the
  elements from the first non-empty one with \<^verbatim>\<open>/\<close> and cleans the result; with no
  non-empty element it returns the empty string.
\<close>

fun cleanElements :: "bool \<Rightarrow> string list \<Rightarrow> string list \<Rightarrow> string list" where
  "cleanElements rooted [] out = rev out"
| "cleanElements rooted (e # es) out =
     (if e = [] \<or> e = ''.'' then cleanElements rooted es out
      else if e = ''..'' then
        (case out of
           [] \<Rightarrow> if rooted then cleanElements rooted es [] else cleanElements rooted es [''..'']
         | x # xs \<Rightarrow>
             if x = ''..'' then cleanElements rooted es (''..'' # out)
             else cleanElements rooted es xs)
      else cleanElements rooted es (e # out))"

fun strings_Join :: "string list \<Rightarrow> string \<Rightarrow> string" where
  "strings_Join [] sep = []"
| "strings_Join [e] sep = e"
| "strings_Join (e # es) sep = e @ sep @ strings_Join es sep"

definition Clean :: "string \<Rightarrow> string" where
  "Clean p =
     (let rooted = (p \<noteq> [] \<and> hd p = CHR ''/'');
          body = strings_Join (cleanElements rooted (strings_Split p (CHR ''/'')) []) ''/''
      in if rooted then ''/'' @ body else if body = [] then ''.'' else body)"

definition Join :: "string list \<Rightarrow> string" where
  "Join elem =
     (case dropWhile (\<lambda>e. e = []) elem of
        [] \<Rightarrow> []
      | e # es \<Rightarrow> Clean (strings_Join (e # es) ''/''))"

text \<open>
  The file system at the time of a scrape: the answers of the operating system to
  \<^verbatim>\<open>os.Lstat\<close> (the error, if any), \<^verbatim>\<open>os.Stat\<close> (whether the path is a
  directory, or the error), \<^verbatim>\<open>os.Open\<close> (the error, if any),
  \<^verbatim>\<open>Readdirnames(-1)\<close> (the names it returns, in the order of the directory, and
  the error, if any) and \<^verbatim>\<open>ioutil.ReadFile\<close>. Beside them stands
  \<^verbatim>\<open>filepath.Match\<close>, the pattern matcher of the library (whether the name matches,
  or the error of a malformed pattern): the model does not fix it, and the theorems
  hold for every matcher.
\<close>

record filesystem =
  Match :: "string \<Rightarrow> string \<Rightarrow> error + bool"
  Lstat :: "string \<Rightarrow> error option"
  Stat :: "string \<Rightarrow> error + bool"
  Open :: "string \<Rightarrow> error option"
  Readdirnames :: "string \<Rightarrow> string list \<times> error option"
  ReadFile :: "string \<Rightarrow> error + string"

subsection \<open>The expansion of a pattern: \<^verbatim>\<open>filepath.Glob\<close>\<close>

text \<open>
  \<^verbatim>\<open>filepath.Glob\<close> as the Go library has it (path/filepath/match.go, separator
  \<^verbatim>\<open>/\<close>). \<open>hasMeta\<close>: the pattern has one of the bytes \<^verbatim>\<open>*\<close>, \<^verbatim>\<open>?\<close>,
  \<^verbatim>\<open>[\<close> and the backslash. \<open>filepath_Split\<close> cuts a path after its last separator;
  \<open>cleanGlobPath\<close> drops the separator at the end of the directory part.
\<close>

definition hasMeta :: "string \<Rightarrow> bool" where
  "hasMeta p = list_ex (\<lambda>c. c \<in> set [CHR ''*'', CHR ''?'', CHR ''['', CHR 0x5C]) p"

definition filepath_Split :: "string \<Rightarrow> string \<times> string" where
  "filepath_Split p =
     (let file = rev (takeWhile (\<lambda>c. c \<noteq> CHR ''/'') (rev p))
      in (take (length p - length file) p, file))"

definition cleanGlobPath :: "string \<Rightarrow> string" where
  "cleanGlobPath p = (if p = [] then ''.'' else if p = ''/'' then p else butlast p)"

text \<open>
  \<open>glob\<close> adds to \<open>matches\<close> the entries of one directory that match the pattern.
  A directory that cannot be examined, is no directory or cannot be opened adds
  nothing and is no error; the error of the listing is dropped, the names are sorted
  (\<^verbatim>\<open>sort.Strings\<close>: byte by byte); only the matcher can fail. \<open>matchNames\<close> is
  the loop over the names.
\<close>

fun matchNames :: "filesystem \<Rightarrow> string \<Rightarrow> string \<Rightarrow> string list \<Rightarrow> string list \<Rightarrow> error + string list" where
  "matchNames fs dir pattern [] m = Inr m"
| "matchNames fs dir pattern (n # names) m =
     (case Match fs pattern n of
        Inl err \<Rightarrow> Inl err
      | Inr matched \<Rightarrow>
          matchNames fs dir pattern names (if matched then m @ [Join [dir, n]] else m))"

definition glob :: "filesystem \<Rightarrow> string \<Rightarrow> string \<Rightarrow> string list \<Rightarrow> error + string list" where
  "glob fs dir pattern matches =
     (case Stat fs dir of
        Inl err \<Rightarrow> Inr matches
      | Inr isDir \<Rightarrow>
          if \<not> isDir then Inr matches
          else (case Open fs dir of
                  Some err \<Rightarrow> Inr matches
                | None \<Rightarrow> matchNames fs dir pattern (sort (fst (Readdirnames fs dir))) matches))"

text \<open>The loop of \<open>Glob\<close> over the directories that the directory part expands to.\<close>

fun globDirs :: "filesystem \<Rightarrow> string \<Rightarrow> string list \<Rightarrow> string list \<Rightarrow> error + string list" where
  "globDirs fs file [] matches = Inr matches"
| "globDirs fs file (d # m) matches =
     (case glob fs d file matches of
        Inl err \<Rightarrow> Inl err
      | Inr matches' \<Rightarrow> globDirs fs file m matches')"

function globWithLimit :: "filesystem \<Rightarrow> string \<Rightarrow> int \<Rightarrow> error + string list" where
  "globWithLimit fs pattern depth =
     (if depth = 10000 then Inl ErrBadPattern
      else (case Match fs pattern [] of
              Inl err \<Rightarrow> Inl err
            | Inr ok \<Rightarrow>
                if \<not> hasMeta pattern then
                  (case Lstat fs pattern of Some err \<Rightarrow> Inr [] | None \<Rightarrow> Inr [pattern])
                else
                  (let dir = cleanGlobPath (fst (filepath_Split pattern));
                       file = snd (filepath_Split pattern)
                   in if \<not> hasMeta dir then glob fs dir file []
                      else if dir = pattern then Inl ErrBadPattern
                      else (case globWithLimit fs dir (depth + 1) of
                              Inl err \<Rightarrow> Inl err
                            | Inr m \<Rightarrow> globDirs fs file m []))))"
  by pat_completeness auto
termination
proof (relation "measure (\<lambda>(fs, pattern, depth). length pattern)")
  show "wf (measure (\<lambda>(fs, pattern, depth). length pattern))"
    by simp
next
  fix fs :: filesystem and pattern dir :: string and depth :: int
  assume "dir = cleanGlobPath (fst (filepath_Split pattern))" and "\<not> \<not> hasMeta dir"
  then have meta: "hasMeta (cleanGlobPath (fst (filepath_Split pattern)))"
    by simp
  let ?d = "fst (filepath_Split pattern)"
  have le: "length ?d \<le> length pattern"
    by (simp add: filepath_Split_def Let_def)
  from meta have "?d \<noteq> []" and "?d \<noteq> ''/''"
    by (auto simp: cleanGlobPath_def hasMeta_def)
  then have "cleanGlobPath ?d = butlast ?d"
    by (simp add: cleanGlobPath_def)
  with \<open>?d \<noteq> []\<close> le have "length (cleanGlobPath ?d) < length pattern"
    by (cases ?d) auto
  with \<open>dir = cleanGlobPath ?d\<close>
  show "((fs, dir, depth + 1), (fs, pattern, depth))
      \<in> measure (\<lambda>(fs, pattern, depth). length pattern)"
    by simp
qed

declare globWithLimit.simps [simp del]

definition Glob :: "filesystem \<Rightarrow> string \<Rightarrow> error + string list" where
  "Glob fs pattern = globWithLimit fs pattern 0"

subsection \<open>Metric templates and the source\<close>

definition samplesHelp :: string where
  "samplesHelp = ''Total number of times the given metric has been collected.''"

definition maximumHelp :: string where
  "maximumHelp = ''The maximum value retrieved for the given metric.''"

definition minimumHelp :: string where
  "minimumHelp = ''The minimum value retrieved for the given metric.''"

definition totalHelp :: string where
  "totalHelp = ''The sum of all values collected for the given metric.''"

record lustreProcMetric =
  subsystem :: string
  name :: string
  source :: string
  path :: string
  helpText :: string

record lustreSource =
  lustreProcMetrics :: "lustreProcMetric list"
  basePath :: string

definition newLustreProcMetric :: "string \<Rightarrow> string \<Rightarrow> string \<Rightarrow> string \<Rightarrow> lustreProcMetric" where
  "newLustreProcMetric = (\<lambda>name source path helpText.
     \<lparr>subsystem = [], name = name, source = source, path = path, helpText = helpText\<rparr>)"

text \<open>
  The conversion \<^verbatim>\<open>float64(value)\<close> of a \<^verbatim>\<open>uint64\<close>: the nearest number with a
  mantissa of 53 bits, a tie going to the even mantissa. The result is a whole number
  of at most \<open>2 ^ 64\<close> and is modelled by that number; \<open>e\<close> is the number of bits
  the value has beyond 53, at most 11.
\<close>

definition float64 :: "uint64 \<Rightarrow> int" where
  "float64 v =
     (let n = uint v;
          e = length (takeWhile (\<lambda>k. 2 ^ 53 \<le> n div 2 ^ k) [0..<12]);
          q = n div 2 ^ e;
          r = n mod 2 ^ e
      in if 2 * r > 2 ^ e \<or> (2 * r = 2 ^ e \<and> odd q) then (q + 1) * 2 ^ e else q * 2 ^ e)"

text \<open>
  What \<open>constMetric\<close> hands to \<^verbatim>\<open>prometheus.MustNewConstMetric\<close>: the label name
  (the node type), the label value (the node name), the metric name that
  \<^verbatim>\<open>BuildFQName\<close> puts after the namespace and \<^verbatim>\<open>lustre\<close>, the help text and the
  value as a \<^verbatim>\<open>float64\<close>, a counter. The receiver is not used. The checks of the
  Prometheus constructor (a valid metric name, label values in UTF-8) belong to the
  library and are not modelled.
\<close>

datatype Metric = ConstMetric string string string string int

definition constMetric :: "string \<Rightarrow> string \<Rightarrow> string \<Rightarrow> string \<Rightarrow> uint64 \<Rightarrow> Metric" where
  "constMetric = (\<lambda>nodeType nodeName name helpText value.
     ConstMetric nodeType nodeName name helpText (float64 value))"

subsection \<open>Parsing\<close>

text \<open>
  A variable of the source whose name is a constant of HOL or a field of a record above
  has a prime here (\<open>total'\<close>, \<open>name'\<close>). A Go map is an association list, in the
  order of the source's assignments; the \<^verbatim>\<open>nil\<close> map is the empty list. Go leaves
  the order in which \<^verbatim>\<open>range\<close> visits a map open, so the theorems on what a stats
  file emits speak of the multiset.
\<close>

type_synonym statsMap = "(string \<times> (string \<times> uint64) list) list"

definition parseReadWriteBytes :: "string \<Rightarrow> string \<Rightarrow> statsMap outcome" where
  "parseReadWriteBytes = (\<lambda>regexString statsFile.
     let bytesString = FindString regexString statsFile
     in if length bytesString = 0 then Returns []
        else
          let bytesSplit = regexp_Split_spaces bytesString
          in (case index bytesSplit 1 of None \<Rightarrow> Panics | Some field1 \<Rightarrow>
             (case ParseUint field1 of Inl err \<Rightarrow> Fails err | Inr samples \<Rightarrow>
             (case index bytesSplit 4 of None \<Rightarrow> Panics | Some field4 \<Rightarrow>
             (case ParseUint field4 of Inl err \<Rightarrow> Fails err | Inr minimum \<Rightarrow>
             (case index bytesSplit 5 of None \<Rightarrow> Panics | Some field5 \<Rightarrow>
             (case ParseUint field5 of Inl err \<Rightarrow> Fails err | Inr maximum \<Rightarrow>
             (case index bytesSplit 6 of None \<Rightarrow> Panics | Some field6 \<Rightarrow>
             (case ParseUint field6 of Inl err \<Rightarrow> Fails err | Inr total' \<Rightarrow>
                Returns
                  [(''samples_total'', [(samplesHelp, samples)]),
                   (''minimum_size_bytes'', [(minimumHelp, minimum)]),
                   (''maximum_size_bytes'', [(maximumHelp, maximum)]),
                   (''total_bytes'', [(totalHelp, total')])])))))))))"

definition parseStatsFile :: "filesystem \<Rightarrow> string \<Rightarrow> (string \<times> statsMap) list outcome" where
  "parseStatsFile = (\<lambda>fs path.
     case ReadFile fs path of Inl err \<Rightarrow> Fails err | Inr statsFile \<Rightarrow>
     (case parseReadWriteBytes ''read_bytes .*'' statsFile of
        Fails err \<Rightarrow> Fails err | Panics \<Rightarrow> Panics | Returns readStatsMap \<Rightarrow>
     (case parseReadWriteBytes ''write_bytes .*'' statsFile of
        Fails err \<Rightarrow> Fails err | Panics \<Rightarrow> Panics | Returns writeStatsMap \<Rightarrow>
          Returns [(''read'', readStatsMap), (''write'', writeStatsMap)])))"

text \<open>
  \<open>parseFile\<close>: the handler is the callback of the source, here a function that takes
  the channel and returns it with what it sent. The receiver is not used.
\<close>

definition parseFile ::
  "filesystem \<Rightarrow> string \<Rightarrow> string \<Rightarrow> string \<Rightarrow> string \<Rightarrow>
   (string \<Rightarrow> string \<Rightarrow> string \<Rightarrow> string \<Rightarrow> uint64 \<Rightarrow> 'ch \<Rightarrow> 'ch) \<Rightarrow> 'ch \<Rightarrow> unit outcome \<times> 'ch" where
  "parseFile = (\<lambda>fs nodeType metricType path helpText handler ch.
     let pathElements = strings_Split path (CHR ''/'');
         pathLen = int (length pathElements)
     in if pathLen < 1 then (Fails ErrPathElements, ch)
        else
          (case index pathElements (pathLen - 1) of None \<Rightarrow> (Panics, ch) | Some name' \<Rightarrow>
          (case index pathElements (pathLen - 2) of None \<Rightarrow> (Panics, ch) | Some nodeName \<Rightarrow>
             if metricType = ''single'' then
               (case ReadFile fs path of Inl err \<Rightarrow> (Fails err, ch) | Inr value \<Rightarrow>
               (case ParseUint (TrimSpace value) of Inl err \<Rightarrow> (Fails err, ch)
                | Inr convertedValue \<Rightarrow>
                    (Returns (), handler nodeType nodeName name' helpText convertedValue ch)))
             else if metricType = ''stats'' then
               (case parseStatsFile fs path of
                  Fails err \<Rightarrow> (Fails err, ch)
                | Panics \<Rightarrow> (Panics, ch)
                | Returns metricMap \<Rightarrow>
                    (Returns (),
                     fold (\<lambda>(statType, statMap).
                       fold (\<lambda>(key, metricMap).
                         fold (\<lambda>(detailedHelp, value).
                           handler nodeType nodeName (statType @ ''_'' @ key) detailedHelp value)
                           metricMap)
                         statMap)
                       metricMap ch))
             else (Returns (), ch))))"

subsection \<open>The scrape\<close>

text \<open>
  A \<^verbatim>\<open>for ... range\<close> loop over a slice whose body may return from the function:
  the first element whose body does not complete ends the loop with that outcome.
\<close>

fun forRange :: "'a list \<Rightarrow> ('a \<Rightarrow> 'ch \<Rightarrow> unit outcome \<times> 'ch) \<Rightarrow> 'ch \<Rightarrow> unit outcome \<times> 'ch" where
  "forRange [] body ch = (Returns (), ch)"
| "forRange (x # xs) body ch =
     (case body x ch of
        (Returns u, ch') \<Rightarrow> forRange xs body ch'
      | (Fails err, ch') \<Rightarrow> (Fails err, ch')
      | (Panics, ch') \<Rightarrow> (Panics, ch'))"

text \<open>Line 153: the paths a template resolves to.\<close>

definition resolve :: "lustreSource \<Rightarrow> filesystem \<Rightarrow> lustreProcMetric \<Rightarrow> error + string list" where
  "resolve = (\<lambda>s fs metric. Glob fs (Join [basePath s, path metric, name metric]))"

text \<open>The function literal of \<open>Update\<close> (lines 168 to 170): it sends the metric.\<close>

definition sendMetric :: "string \<Rightarrow> string \<Rightarrow> string \<Rightarrow> string \<Rightarrow> uint64 \<Rightarrow> Metric list \<Rightarrow> Metric list" where
  "sendMetric = (\<lambda>nodeType nodeName name helpText value ch.
     ch @ [constMetric nodeType nodeName name helpText value])"

text \<open>The body of the inner loop of \<open>Update\<close>: one resolved path.\<close>

definition updatePath :: "filesystem \<Rightarrow> lustreProcMetric \<Rightarrow> string \<Rightarrow> Metric list \<Rightarrow> unit outcome \<times> Metric list" where
  "updatePath = (\<lambda>fs metric path ch.
     let metricType = (if name metric = ''stats'' then ''stats'' else ''single'')
     in parseFile fs (source metric) metricType path (helpText metric) sendMetric ch)"

text \<open>The body of the outer loop of \<open>Update\<close>: one template.\<close>

definition updateMetric :: "lustreSource \<Rightarrow> filesystem \<Rightarrow> lustreProcMetric \<Rightarrow> Metric list \<Rightarrow> unit outcome \<times> Metric list" where
  "updateMetric = (\<lambda>s fs metric ch.
     case resolve s fs metric of
       Inl err \<Rightarrow> (Fails err, ch)
     | Inr paths \<Rightarrow>
         if paths = [] then (Returns (), ch)
         else forRange paths (updatePath fs metric) ch)"

definition Update :: "lustreSource \<Rightarrow> filesystem \<Rightarrow> Metric list \<Rightarrow> unit outcome \<times> Metric list" where
  "Update = (\<lambda>s fs ch. forRange (lustreProcMetrics s) (updateMetric s fs) ch)"

subsection \<open>Example file systems\<close>

text \<open>
  A matcher for the examples. It agrees with \<^verbatim>\<open>filepath.Match\<close> on the patterns
  that the templates of the source make, literal bytes and \<^verbatim>\<open>*\<close> (any run of bytes
  without a separator), and reads every pattern with another meta byte as malformed.
\<close>

fun literalStar :: "string \<Rightarrow> string \<Rightarrow> bool" where
  "literalStar [] n = (n = [])"
| "literalStar (p # ps) n =
     (if p = CHR ''*''
      then (literalStar ps n \<or> (case n of [] \<Rightarrow> False | c # cs \<Rightarrow> c \<noteq> CHR ''/'' \<and> literalStar (p # ps) cs))
      else (case n of [] \<Rightarrow> False | c # cs \<Rightarrow> c = p \<and> literalStar ps cs))"

definition templateMatch :: "string \<Rightarrow> string \<Rightarrow> error + bool" where
  "templateMatch pattern n =
     (if list_ex (\<lambda>c. c \<in> set [CHR ''?'', CHR ''['', CHR 0x5C]) pattern then Inl ErrBadPattern
      else Inr (literalStar pattern n))"


text \<open>
  An object storage server with four targets, which the directory lists out of order:
  a block size file that does not parse on the second target, statistics files with
  both directions, with reads only and with writes only, and on the fourth target a
  statistics file with the text \<^verbatim>\<open>read_bytes\<close> inside a longer name.
\<close>

definition ostDirs :: "string list" where
  "ostDirs =
     [''/proc/fs/lustre/obdfilter/ost1'', ''/proc/fs/lustre/obdfilter/ost2'',
      ''/proc/fs/lustre/obdfilter/ost3'', ''/proc/fs/lustre/obdfilter/ost4'']"

definition ostFiles :: filesystem where
  "ostFiles =
     \<lparr>Match = templateMatch,
      Lstat = (\<lambda>path.
        if path = ''/proc/fs/lustre/obdfilter'' \<or> path \<in> set ostDirs then None
        else Some (ErrOS ''no such file or directory'')),
      Stat = (\<lambda>path.
        if path = ''/proc/fs/lustre/obdfilter'' \<or> path \<in> set ostDirs then Inr True
        else Inl (ErrOS ''no such file or directory'')),
      Open = (\<lambda>path.
        if path = ''/proc/fs/lustre/obdfilter'' \<or> path \<in> set ostDirs then None
        else Some (ErrOS ''no such file or directory'')),
      Readdirnames = (\<lambda>path.
        if path = ''/proc/fs/lustre/obdfilter'' then ([''ost3'', ''ost1'', ''ost4'', ''ost2''], None)
        else if path = ''/proc/fs/lustre/obdfilter/ost4'' then ([''stats''], None)
        else if path \<in> set ostDirs then ([''stats'', ''blocksize''], None)
        else ([], Some (ErrOS ''bad file descriptor''))),
      ReadFile = (\<lambda>path.
        if path = ''/proc/fs/lustre/obdfilter/ost1/blocksize'' then Inr ''42\<newline>''
        else if path = ''/proc/fs/lustre/obdfilter/ost2/blocksize'' then Inr ''abc''
        else if path = ''/proc/fs/lustre/obdfilter/ost3/blocksize'' then Inr ''4096\<newline>''
        else if path = ''/proc/fs/lustre/obdfilter/ost1/stats''
        then Inr ''snapshot_time 1489065483.838923 secs.usecs\<newline>read_bytes 3 samples [bytes] 10 100 150\<newline>write_bytes 2 samples [bytes] 5 50 55\<newline>get_info 18 samples [reqs]\<newline>''
        else if path = ''/proc/fs/lustre/obdfilter/ost2/stats''
        then Inr ''snapshot_time 1489065483.838923 secs.usecs\<newline>read_bytes 3 samples [bytes] 10 100 150\<newline>''
        else if path = ''/proc/fs/lustre/obdfilter/ost3/stats''
        then Inr ''snapshot_time 1489065483.838923 secs.usecs\<newline>write_bytes 2 samples [bytes] 5 50 55\<newline>''
        else if path = ''/proc/fs/lustre/obdfilter/ost4/stats''
        then Inr ''snapshot_time 1489065483.838923 secs.usecs\<newline>cache_read_bytes 3 samples [bytes] 10 100 150\<newline>''
        else Inl (ErrOS ''no such file or directory''))\<rparr>"

text \<open>The same server when the directory of the targets cannot be opened.\<close>

definition lockedFiles :: filesystem where
  "lockedFiles =
     ostFiles\<lparr>Open := (\<lambda>path.
        if path = ''/proc/fs/lustre/obdfilter'' then Some (ErrOS ''permission denied'')
        else Open ostFiles path)\<rparr>"

text \<open>
  The same server when every directory lists its names in the opposite order and the
  listing ends with an error.
\<close>

definition relistedFiles :: filesystem where
  "relistedFiles =
     ostFiles\<lparr>Readdirnames := (\<lambda>path.
        (rev (fst (Readdirnames ostFiles path)), Some (ErrOS ''input/output error'')))\<rparr>"

text \<open>
  Templates as \<open>generateOSSMetricTemplates\<close> builds them, one with a malformed
  pattern, and a source with the base path of \<open>NewLustreSource\<close>. The order of the
  templates in a source is a parameter: the source ranges over a map to build them.
\<close>

definition blocksizeTemplate :: lustreProcMetric where
  "blocksizeTemplate =
     newLustreProcMetric ''blocksize'' ''OSS'' ''obdfilter/*'' ''Filesystem block size in bytes''"

definition statsTemplate :: lustreProcMetric where
  "statsTemplate =
     newLustreProcMetric ''stats'' ''OSS'' ''obdfilter/*''
       ''A collection of statistics specific to Lustre''"

definition kbytesfreeTemplate :: lustreProcMetric where
  "kbytesfreeTemplate =
     newLustreProcMetric ''kbytesfree'' ''OSS'' ''obdfilter/*''
       ''Number of kilobytes allocated to the pool''"

definition malformedTemplate :: lustreProcMetric where
  "malformedTemplate =
     newLustreProcMetric ''blocksize'' ''OSS'' ''obdfilter/['' ''Filesystem block size in bytes''"

definition sourceOf :: "lustreProcMetric list \<Rightarrow> lustreSource" where
  "sourceOf templates = \<lparr>lustreProcMetrics = templates, basePath = ''/proc/fs/lustre''\<rparr>"

section \<open>Properties\<close>

subsection \<open>The value of a metric\<close>

lemma float64_exact:
  assumes "v \<le> 2 ^ 53"
  shows "float64 v = uint v"
proof -
  from assms have "uint v \<le> 2 ^ 53"
    by (simp add: word_le_def)
  then consider "uint v < 2 ^ 53" | "uint v = 2 ^ 53"
    by linarith
  then show ?thesis
  proof cases
    case 1
    then have "takeWhile (\<lambda>k. 2 ^ 53 \<le> uint v div 2 ^ k) [0..<12] = []"
      by (simp add: upt_conv_Cons)
    then show ?thesis
      by (simp add: float64_def)
  next
    case 2
    have "takeWhile (\<lambda>k. (2::int) ^ 53 \<le> 2 ^ 53 div 2 ^ k) [0..<12] = [0]"
      by (simp add: upt_conv_Cons)
    then show ?thesis
      by (simp add: float64_def 2)
  qed
qed

lemma float64_rounded: "float64 (2 ^ 53 + 1) = 2 ^ 53"
  by code_simp

lemma float64_exact_bound:
  fixes b :: uint64
  assumes "\<forall>w\<le>b. float64 w = uint w"
  shows "b \<le> 2 ^ 53"
proof (rule ccontr)
  assume "\<not> b \<le> 2 ^ 53"
  then have "(2 ^ 53 + 1 :: uint64) \<le> b"
    by (simp add: word_le_def word_less_def not_le uint_word_ariths)
  with assms have "float64 (2 ^ 53 + 1) = uint (2 ^ 53 + 1 :: uint64)"
    by blast
  moreover have "uint (2 ^ 53 + 1 :: uint64) = 2 ^ 53 + 1"
    by simp
  ultimately show False
    unfolding float64_rounded by simp
qed

text \<open>
  C10. What the scrape sends for a parsed \<^verbatim>\<open>uint64\<close> is a metric whose value is
  that number converted to \<^verbatim>\<open>float64\<close>. The conversion is exact for every value
  of at most \<open>2 ^ 53\<close>, and only up to there: every bound up to which all values are
  exact is at most \<open>2 ^ 53\<close>, since the next value, \<open>2 ^ 53 + 1\<close>, is rounded to
  \<open>2 ^ 53\<close>.
\<close>

theorem sendMetric_float64:
  fixes metricName metricHelp :: string
  shows "sendMetric nodeType nodeName metricName metricHelp v ch
           = ch @ [ConstMetric nodeType nodeName metricName metricHelp (float64 v)] \<and>
         (v \<le> 2 ^ 53 \<longrightarrow> float64 v = uint v) \<and>
         (\<forall>b. (\<forall>w\<le>b. float64 w = uint w) \<longrightarrow> b \<le> 2 ^ 53) \<and>
         float64 (2 ^ 53 + 1) = 2 ^ 53"
proof (intro conjI allI impI)
  show "sendMetric nodeType nodeName metricName metricHelp v ch
      = ch @ [ConstMetric nodeType nodeName metricName metricHelp (float64 v)]"
    by (simp add: sendMetric_def constMetric_def)
next
  assume "v \<le> 2 ^ 53"
  then show "float64 v = uint v"
    by (rule float64_exact)
next
  fix b :: uint64
  assume "\<forall>w\<le>b. float64 w = uint w"
  then show "b \<le> 2 ^ 53"
    by (rule float64_exact_bound)
next
  show "float64 (2 ^ 53 + 1) = 2 ^ 53"
    by (rule float64_rounded)
qed

theorem sendMetric_float64_witness:
  "sendMetric ''OSS'' ''ost3'' ''blocksize'' ''Filesystem block size in bytes'' 4096 []
     = [ConstMetric ''OSS'' ''ost3'' ''blocksize'' ''Filesystem block size in bytes'' 4096] \<and>
   float64 4096 = 4096"
proof -
  have small: "(4096 :: uint64) \<le> 2 ^ 53"
    by simp
  from sendMetric_float64 [of "''OSS''" "''ost3''" "''blocksize''"
      "''Filesystem block size in bytes''" 4096 "[]"] small
  show ?thesis
    by simp
qed

subsection \<open>Paths and their elements\<close>



lemma index_last:
  "index (dirs @ [a, b]) (int (length (dirs @ [a, b])) - 1) = Some b"
proof -
  have "nat (int (length (dirs @ [a, b])) - 1) = Suc (length dirs)"
    by simp
  then show ?thesis
    by (simp add: index_def nth_append del: length_append)
qed

lemma index_before_last:
  "index (dirs @ [a, b]) (int (length (dirs @ [a, b])) - 2) = Some a"
proof -
  have "nat (int (length (dirs @ [a, b])) - 2) = length dirs"
    and "2 \<le> length (dirs @ [a, b])"
    by simp_all
  then show ?thesis
    by (simp add: index_def nth_append del: length_append)
qed

lemma parseFile_two_elements:
  fixes path helpText :: string
  assumes "strings_Split path (CHR ''/'') = dirs @ [nodeName, fileName]"
  shows "parseFile fs nodeType metricType path helpText handler ch =
     (if metricType = ''single'' then
        (case ReadFile fs path of Inl err \<Rightarrow> (Fails err, ch) | Inr content \<Rightarrow>
        (case ParseUint (TrimSpace content) of Inl err \<Rightarrow> (Fails err, ch)
         | Inr convertedValue \<Rightarrow>
             (Returns (), handler nodeType nodeName fileName helpText convertedValue ch)))
      else if metricType = ''stats'' then
        (case parseStatsFile fs path of
           Fails err \<Rightarrow> (Fails err, ch)
         | Panics \<Rightarrow> (Panics, ch)
         | Returns metricMap \<Rightarrow>
             (Returns (),
              fold (\<lambda>(statType, statMap).
                fold (\<lambda>(key, metricMap).
                  fold (\<lambda>(detailedHelp, v).
                    handler nodeType nodeName (statType @ ''_'' @ key) detailedHelp v)
                    metricMap)
                  statMap)
                metricMap ch))
      else (Returns (), ch))"
  using index_last [of dirs nodeName fileName] index_before_last [of dirs nodeName fileName]
  by (simp add: parseFile_def assms del: length_append)



subsection \<open>The statistics file\<close>

text \<open>
  C2. A matched line with fewer than seven fields should make the parser return an
  error. The fields 1, 4, 5 and 6 are read without a test of how many there are: when
  the line has fewer than seven fields and those of the fields 1, 4 and 5 that it has
  are numbers, the read of the first missing field panics. (When one of them is not a
  number, its syntax error is returned before the missing field is read.)
\<close>

theorem parseReadWriteBytes_short_line:
  assumes "FindString regexString statsFile = line" and "line \<noteq> []"
    and "regexp_Split_spaces line = bytesSplit" and "length bytesSplit < 7"
    and "\<forall>i\<in>{1, 4, 5}. i < length bytesSplit \<longrightarrow> (\<exists>v. ParseUint (bytesSplit ! i) = Inr v)"
  shows "parseReadWriteBytes regexString statsFile = Panics"
proof -
  have numeric: "index bytesSplit (int i) = Some field \<Longrightarrow> i \<in> {1, 4, 5} \<Longrightarrow>
      \<exists>v. ParseUint field = Inr v" for i field
    using assms(5) by (auto simp: index_def split: if_splits)
  have "index bytesSplit 6 = None"
    using assms(4) by (simp add: index_def)
  with numeric [of 1] numeric [of 4] numeric [of 5] show ?thesis
    using assms(1-3)
    by (auto simp: parseReadWriteBytes_def split: option.splits sum.splits)
qed

theorem parseReadWriteBytes_short_line_witness:
  "parseReadWriteBytes ''read_bytes .*'' ''snapshot_time 1 secs\<newline>read_bytes 3 samples\<newline>'' = Panics"
proof -
  have line: "FindString ''read_bytes .*'' ''snapshot_time 1 secs\<newline>read_bytes 3 samples\<newline>''
      = ''read_bytes 3 samples''"
    by code_simp
  have three_fields: "regexp_Split_spaces ''read_bytes 3 samples'' = [''read_bytes'', ''3'', ''samples'']"
    by code_simp
  have short: "length [''read_bytes'', ''3'', ''samples''] < 7"
    by simp
  have count: "ParseUint ''3'' = Inr 3"
    by code_simp
  have numeric: "\<forall>i\<in>{1, 4, 5}. i < length [''read_bytes'', ''3'', ''samples''] \<longrightarrow>
      (\<exists>v. ParseUint ([''read_bytes'', ''3'', ''samples''] ! i) = Inr v)"
    by (simp add: count)
  show ?thesis
    by (rule parseReadWriteBytes_short_line [OF line _ three_fields short numeric]) simp
qed

lemma parseReadWriteBytes_of_match:
  "FindString regexString statsFile = FindString regexString' statsFile' \<Longrightarrow>
   parseReadWriteBytes regexString statsFile = parseReadWriteBytes regexString' statsFile'"
  by (simp add: parseReadWriteBytes_def)

lemma parseReadWriteBytes_no_match:
  "FindString regexString statsFile = [] \<Longrightarrow> parseReadWriteBytes regexString statsFile = Returns []"
  by (simp add: parseReadWriteBytes_def)

lemma parseReadWriteBytes_fields:
  assumes "FindString regexString statsFile = line" and "line \<noteq> []"
    and "regexp_Split_spaces line = f0 # f1 # f2 # f3 # f4 # f5 # f6 # others"
    and "ParseUint f1 = Inr samples" and "ParseUint f4 = Inr minimum"
    and "ParseUint f5 = Inr maximum" and "ParseUint f6 = Inr total'"
  shows "parseReadWriteBytes regexString statsFile =
     Returns [(''samples_total'', [(samplesHelp, samples)]),
              (''minimum_size_bytes'', [(minimumHelp, minimum)]),
              (''maximum_size_bytes'', [(maximumHelp, maximum)]),
              (''total_bytes'', [(totalHelp, total')])]"
  using assms by (simp add: parseReadWriteBytes_def index_def)

text \<open>
  C4. A statistics file in which the read line is
  \<^verbatim>\<open>read_bytes 3 samples [bytes] 10 100 150\<close> and the write line is
  \<^verbatim>\<open>write_bytes 2 samples [bytes] 5 50 55\<close> sends exactly eight metrics: the
  sample count, the minimum, the maximum and the sum of each direction, each under its
  own help text, with the node type as label and the directory of the file as node
  name. What the channel held before stays in front.
\<close>

theorem parseFile_stats_read_and_write:
  fixes path helpText :: string
  assumes "strings_Split path (CHR ''/'') = dirs @ [nodeName, fileName]"
    and "ReadFile fs path = Inr statsFile"
    and "FindString ''read_bytes .*'' statsFile = ''read_bytes 3 samples [bytes] 10 100 150''"
    and "FindString ''write_bytes .*'' statsFile = ''write_bytes 2 samples [bytes] 5 50 55''"
  shows "\<exists>sent. parseFile fs nodeType ''stats'' path helpText sendMetric ch = (Returns (), ch @ sent) \<and>
     mset sent =
       {# ConstMetric nodeType nodeName ''read_samples_total'' samplesHelp 3,
          ConstMetric nodeType nodeName ''read_minimum_size_bytes'' minimumHelp 10,
          ConstMetric nodeType nodeName ''read_maximum_size_bytes'' maximumHelp 100,
          ConstMetric nodeType nodeName ''read_total_bytes'' totalHelp 150,
          ConstMetric nodeType nodeName ''write_samples_total'' samplesHelp 2,
          ConstMetric nodeType nodeName ''write_minimum_size_bytes'' minimumHelp 5,
          ConstMetric nodeType nodeName ''write_maximum_size_bytes'' maximumHelp 50,
          ConstMetric nodeType nodeName ''write_total_bytes'' totalHelp 55 #}"
proof -
  have fields_read: "regexp_Split_spaces ''read_bytes 3 samples [bytes] 10 100 150''
      = ''read_bytes'' # ''3'' # ''samples'' # ''[bytes]'' # ''10'' # ''100'' # ''150'' # []"
    by code_simp
  have fields_write: "regexp_Split_spaces ''write_bytes 2 samples [bytes] 5 50 55''
      = ''write_bytes'' # ''2'' # ''samples'' # ''[bytes]'' # ''5'' # ''50'' # ''55'' # []"
    by code_simp
  have numbers: "ParseUint ''3'' = Inr 3" "ParseUint ''10'' = Inr 10" "ParseUint ''100'' = Inr 100"
    "ParseUint ''150'' = Inr 150" "ParseUint ''2'' = Inr 2" "ParseUint ''5'' = Inr 5"
    "ParseUint ''50'' = Inr 50" "ParseUint ''55'' = Inr 55"
    by code_simp+
  have read_map: "parseReadWriteBytes ''read_bytes .*'' statsFile =
     Returns [(''samples_total'', [(samplesHelp, 3)]),
              (''minimum_size_bytes'', [(minimumHelp, 10)]),
              (''maximum_size_bytes'', [(maximumHelp, 100)]),
              (''total_bytes'', [(totalHelp, 150)])]"
    by (rule parseReadWriteBytes_fields [OF assms(3) _ fields_read]) (simp_all add: numbers)
  have write_map: "parseReadWriteBytes ''write_bytes .*'' statsFile =
     Returns [(''samples_total'', [(samplesHelp, 2)]),
              (''minimum_size_bytes'', [(minimumHelp, 5)]),
              (''maximum_size_bytes'', [(maximumHelp, 50)]),
              (''total_bytes'', [(totalHelp, 55)])]"
    by (rule parseReadWriteBytes_fields [OF assms(4) _ fields_write]) (simp_all add: numbers)
  have "parseFile fs nodeType ''stats'' path helpText sendMetric ch =
     (Returns (), ch @
       [ConstMetric nodeType nodeName ''read_samples_total'' samplesHelp 3,
        ConstMetric nodeType nodeName ''read_minimum_size_bytes'' minimumHelp 10,
        ConstMetric nodeType nodeName ''read_maximum_size_bytes'' maximumHelp 100,
        ConstMetric nodeType nodeName ''read_total_bytes'' totalHelp 150,
        ConstMetric nodeType nodeName ''write_samples_total'' samplesHelp 2,
        ConstMetric nodeType nodeName ''write_minimum_size_bytes'' minimumHelp 5,
        ConstMetric nodeType nodeName ''write_maximum_size_bytes'' maximumHelp 50,
        ConstMetric nodeType nodeName ''write_total_bytes'' totalHelp 55])"
    by (simp add: parseFile_two_elements [OF assms(1)] parseStatsFile_def assms(2) read_map
        write_map sendMetric_def constMetric_def float64_exact)
  then show ?thesis
    by auto
qed

theorem parseFile_stats_read_and_write_witness:
  "\<exists>sent. parseFile ostFiles ''OSS'' ''stats'' ''/proc/fs/lustre/obdfilter/ost1/stats''
        ''A collection of statistics specific to Lustre'' sendMetric [] = (Returns (), [] @ sent) \<and>
     mset sent =
       {# ConstMetric ''OSS'' ''ost1'' ''read_samples_total'' samplesHelp 3,
          ConstMetric ''OSS'' ''ost1'' ''read_minimum_size_bytes'' minimumHelp 10,
          ConstMetric ''OSS'' ''ost1'' ''read_maximum_size_bytes'' maximumHelp 100,
          ConstMetric ''OSS'' ''ost1'' ''read_total_bytes'' totalHelp 150,
          ConstMetric ''OSS'' ''ost1'' ''write_samples_total'' samplesHelp 2,
          ConstMetric ''OSS'' ''ost1'' ''write_minimum_size_bytes'' minimumHelp 5,
          ConstMetric ''OSS'' ''ost1'' ''write_maximum_size_bytes'' maximumHelp 50,
          ConstMetric ''OSS'' ''ost1'' ''write_total_bytes'' totalHelp 55 #}"
proof -
  have elements: "strings_Split ''/proc/fs/lustre/obdfilter/ost1/stats'' (CHR ''/'')
      = [[], ''proc'', ''fs'', ''lustre'', ''obdfilter''] @ [''ost1'', ''stats'']"
    by code_simp
  have content: "ReadFile ostFiles ''/proc/fs/lustre/obdfilter/ost1/stats'' =
      Inr ''snapshot_time 1489065483.838923 secs.usecs\<newline>read_bytes 3 samples [bytes] 10 100 150\<newline>write_bytes 2 samples [bytes] 5 50 55\<newline>get_info 18 samples [reqs]\<newline>''"
    by code_simp
  have read_line: "FindString ''read_bytes .*''
      ''snapshot_time 1489065483.838923 secs.usecs\<newline>read_bytes 3 samples [bytes] 10 100 150\<newline>write_bytes 2 samples [bytes] 5 50 55\<newline>get_info 18 samples [reqs]\<newline>''
      = ''read_bytes 3 samples [bytes] 10 100 150''"
    by code_simp
  have write_line: "FindString ''write_bytes .*''
      ''snapshot_time 1489065483.838923 secs.usecs\<newline>read_bytes 3 samples [bytes] 10 100 150\<newline>write_bytes 2 samples [bytes] 5 50 55\<newline>get_info 18 samples [reqs]\<newline>''
      = ''write_bytes 2 samples [bytes] 5 50 55''"
    by code_simp
  show ?thesis
    by (rule parseFile_stats_read_and_write [OF elements content read_line write_line])
qed

text \<open>
  C8. A statistics file with a well-formed line of one direction (at least seven
  fields, the fields 1, 4, 5 and 6 decimal numbers of 64 bits) and no match for the
  other direction parses without error and sends exactly the four metrics of the
  direction that is present, with the values of those fields as \<^verbatim>\<open>float64\<close>;
  \<open>present\<close> is
  \<^verbatim>\<open>read\<close> and \<open>absent\<close> is \<^verbatim>\<open>write\<close>, or the other way round.
\<close>

theorem parseFile_stats_one_direction:
  fixes path helpText :: string
  assumes "strings_Split path (CHR ''/'') = dirs @ [nodeName, fileName]"
    and "ReadFile fs path = Inr statsFile"
    and "(present, absent) = (''read'', ''write'') \<or> (present, absent) = (''write'', ''read'')"
    and "FindString (absent @ ''_bytes .*'') statsFile = []"
    and "FindString (present @ ''_bytes .*'') statsFile = line"
    and "regexp_Split_spaces line = f0 # f1 # f2 # f3 # f4 # f5 # f6 # others"
    and "ParseUint f1 = Inr samples" and "ParseUint f4 = Inr minimum"
    and "ParseUint f5 = Inr maximum" and "ParseUint f6 = Inr total'"
  shows "\<exists>sent. parseFile fs nodeType ''stats'' path helpText sendMetric ch = (Returns (), ch @ sent) \<and>
     mset sent =
       {# ConstMetric nodeType nodeName (present @ ''_samples_total'') samplesHelp (float64 samples),
          ConstMetric nodeType nodeName (present @ ''_minimum_size_bytes'') minimumHelp (float64 minimum),
          ConstMetric nodeType nodeName (present @ ''_maximum_size_bytes'') maximumHelp (float64 maximum),
          ConstMetric nodeType nodeName (present @ ''_total_bytes'') totalHelp (float64 total') #}"
proof -
  have "line \<noteq> []"
    using assms(6) by auto
  from parseReadWriteBytes_fields [OF assms(5) this assms(6-10)]
  have present_map: "parseReadWriteBytes (present @ ''_bytes .*'') statsFile =
     Returns [(''samples_total'', [(samplesHelp, samples)]),
              (''minimum_size_bytes'', [(minimumHelp, minimum)]),
              (''maximum_size_bytes'', [(maximumHelp, maximum)]),
              (''total_bytes'', [(totalHelp, total')])]" .
  have absent_map: "parseReadWriteBytes (absent @ ''_bytes .*'') statsFile = Returns []"
    by (rule parseReadWriteBytes_no_match [OF assms(4)])
  have "parseFile fs nodeType ''stats'' path helpText sendMetric ch =
     (Returns (), ch @
       [ConstMetric nodeType nodeName (present @ ''_samples_total'') samplesHelp (float64 samples),
        ConstMetric nodeType nodeName (present @ ''_minimum_size_bytes'') minimumHelp (float64 minimum),
        ConstMetric nodeType nodeName (present @ ''_maximum_size_bytes'') maximumHelp (float64 maximum),
        ConstMetric nodeType nodeName (present @ ''_total_bytes'') totalHelp (float64 total')])"
    using assms(3) present_map absent_map
    by (auto simp: parseFile_two_elements [OF assms(1)] parseStatsFile_def assms(2)
        sendMetric_def constMetric_def)
  then show ?thesis
    by auto
qed

theorem parseFile_stats_one_direction_witness:
  "(\<exists>sent. parseFile ostFiles ''OSS'' ''stats'' ''/proc/fs/lustre/obdfilter/ost2/stats''
        ''A collection of statistics specific to Lustre'' sendMetric [] = (Returns (), [] @ sent) \<and>
      mset sent =
        {# ConstMetric ''OSS'' ''ost2'' ''read_samples_total'' samplesHelp 3,
           ConstMetric ''OSS'' ''ost2'' ''read_minimum_size_bytes'' minimumHelp 10,
           ConstMetric ''OSS'' ''ost2'' ''read_maximum_size_bytes'' maximumHelp 100,
           ConstMetric ''OSS'' ''ost2'' ''read_total_bytes'' totalHelp 150 #}) \<and>
   (\<exists>sent. parseFile ostFiles ''OSS'' ''stats'' ''/proc/fs/lustre/obdfilter/ost3/stats''
        ''A collection of statistics specific to Lustre'' sendMetric [] = (Returns (), [] @ sent) \<and>
      mset sent =
        {# ConstMetric ''OSS'' ''ost3'' ''write_samples_total'' samplesHelp 2,
           ConstMetric ''OSS'' ''ost3'' ''write_minimum_size_bytes'' minimumHelp 5,
           ConstMetric ''OSS'' ''ost3'' ''write_maximum_size_bytes'' maximumHelp 50,
           ConstMetric ''OSS'' ''ost3'' ''write_total_bytes'' totalHelp 55 #})"
proof -
  have elements2: "strings_Split ''/proc/fs/lustre/obdfilter/ost2/stats'' (CHR ''/'')
      = [[], ''proc'', ''fs'', ''lustre'', ''obdfilter''] @ [''ost2'', ''stats'']"
    by code_simp
  have content2: "ReadFile ostFiles ''/proc/fs/lustre/obdfilter/ost2/stats'' =
      Inr ''snapshot_time 1489065483.838923 secs.usecs\<newline>read_bytes 3 samples [bytes] 10 100 150\<newline>''"
    by code_simp
  have no_write: "FindString (''write'' @ ''_bytes .*'')
      ''snapshot_time 1489065483.838923 secs.usecs\<newline>read_bytes 3 samples [bytes] 10 100 150\<newline>'' = []"
    by code_simp
  have read_line: "FindString (''read'' @ ''_bytes .*'')
      ''snapshot_time 1489065483.838923 secs.usecs\<newline>read_bytes 3 samples [bytes] 10 100 150\<newline>''
      = ''read_bytes 3 samples [bytes] 10 100 150''"
    by code_simp
  have read_fields: "regexp_Split_spaces ''read_bytes 3 samples [bytes] 10 100 150''
      = ''read_bytes'' # ''3'' # ''samples'' # ''[bytes]'' # ''10'' # ''100'' # ''150'' # []"
    by code_simp
  have elements3: "strings_Split ''/proc/fs/lustre/obdfilter/ost3/stats'' (CHR ''/'')
      = [[], ''proc'', ''fs'', ''lustre'', ''obdfilter''] @ [''ost3'', ''stats'']"
    by code_simp
  have content3: "ReadFile ostFiles ''/proc/fs/lustre/obdfilter/ost3/stats'' =
      Inr ''snapshot_time 1489065483.838923 secs.usecs\<newline>write_bytes 2 samples [bytes] 5 50 55\<newline>''"
    by code_simp
  have no_read: "FindString (''read'' @ ''_bytes .*'')
      ''snapshot_time 1489065483.838923 secs.usecs\<newline>write_bytes 2 samples [bytes] 5 50 55\<newline>'' = []"
    by code_simp
  have write_line: "FindString (''write'' @ ''_bytes .*'')
      ''snapshot_time 1489065483.838923 secs.usecs\<newline>write_bytes 2 samples [bytes] 5 50 55\<newline>''
      = ''write_bytes 2 samples [bytes] 5 50 55''"
    by code_simp
  have write_fields: "regexp_Split_spaces ''write_bytes 2 samples [bytes] 5 50 55''
      = ''write_bytes'' # ''2'' # ''samples'' # ''[bytes]'' # ''5'' # ''50'' # ''55'' # []"
    by code_simp
  have numbers: "ParseUint ''3'' = Inr 3" "ParseUint ''10'' = Inr 10" "ParseUint ''100'' = Inr 100"
    "ParseUint ''150'' = Inr 150" "ParseUint ''2'' = Inr 2" "ParseUint ''5'' = Inr 5"
    "ParseUint ''50'' = Inr 50" "ParseUint ''55'' = Inr 55"
    by code_simp+
  have directions: "(''read'', ''write'') = (''read'', ''write'') \<or> (''read'', ''write'') = (''write'', ''read'')"
    "(''write'', ''read'') = (''read'', ''write'') \<or> (''write'', ''read'') = (''write'', ''read'')"
    by simp_all
  from parseFile_stats_one_direction [OF elements2 content2 directions(1) no_write read_line
      read_fields numbers(1-4), of "''OSS''" "''A collection of statistics specific to Lustre''" "[]"]
    parseFile_stats_one_direction [OF elements3 content3 directions(2) no_read write_line
      write_fields numbers(5-8), of "''OSS''" "''A collection of statistics specific to Lustre''" "[]"]
  show ?thesis
    by (simp add: float64_exact)
qed

text \<open>
  The match of a pattern: the leftmost occurrence of its literal text, wherever in a
  line it stands, and the rest of that line.
\<close>

lemma findLiteralLine_at_start:
  "findLiteralLine lit (lit @ rest) = lit @ takeWhile (\<lambda>x. x \<noteq> CHR 0x0A) rest"
proof (cases "lit @ rest")
  case Nil
  then show ?thesis
    by simp
next
  case (Cons c cs)
  have "prefix lit (c # cs)" and "drop (length lit) (c # cs) = rest"
    unfolding Cons [symmetric] by simp_all
  then show ?thesis
    unfolding Cons by simp
qed

lemma findLiteralLine_leftmost:
  assumes "\<forall>i<length before. \<not> prefix lit (drop i (before @ lit @ rest))"
  shows "findLiteralLine lit (before @ lit @ rest) = lit @ takeWhile (\<lambda>x. x \<noteq> CHR 0x0A) rest"
  using assms
proof (induction before)
  case Nil
  then show ?case
    by (simp add: findLiteralLine_at_start)
next
  case (Cons b before)
  from Cons.prems have "\<not> prefix lit (drop 0 ((b # before) @ lit @ rest))"
    by blast
  then have here: "\<not> prefix lit (b # before @ lit @ rest)"
    by simp
  have "\<forall>i<length before. \<not> prefix lit (drop i (before @ lit @ rest))"
  proof (intro allI impI)
    fix i
    assume "i < length before"
    then have "Suc i < length (b # before)"
      by simp
    with Cons.prems have "\<not> prefix lit (drop (Suc i) ((b # before) @ lit @ rest))"
      by blast
    then show "\<not> prefix lit (drop i (before @ lit @ rest))"
      by simp
  qed
  with Cons.IH here show ?case
    by simp
qed

text \<open>
  C6, as the code has it. The direction is read from the leftmost occurrence of the
  literal text of its pattern (\<^verbatim>\<open>read_bytes\<close> or \<^verbatim>\<open>write_bytes\<close> and one
  space) in the file, whether or not it starts a line, and from the rest of that line:
  what stands before the occurrence and what follows the end of its line, later
  occurrences included, does not change the result.
\<close>

theorem parseReadWriteBytes_leftmost_match:
  assumes "\<forall>i<length before. \<not> prefix lit (drop i (before @ lit @ rest))"
  shows "parseReadWriteBytes (lit @ ''.*'') (before @ lit @ rest) =
     parseReadWriteBytes (lit @ ''.*'') (lit @ takeWhile (\<lambda>x. x \<noteq> CHR 0x0A) rest)"
proof -
  have "FindString (lit @ ''.*'') (before @ lit @ rest) = lit @ takeWhile (\<lambda>x. x \<noteq> CHR 0x0A) rest"
    using findLiteralLine_leftmost [OF assms] by (simp add: FindString_def butlast_append)
  moreover have "FindString (lit @ ''.*'') (lit @ takeWhile (\<lambda>x. x \<noteq> CHR 0x0A) rest)
      = lit @ takeWhile (\<lambda>x. x \<noteq> CHR 0x0A) rest"
    by (simp add: FindString_def butlast_append findLiteralLine_at_start)
  ultimately show ?thesis
    by (intro parseReadWriteBytes_of_match) simp
qed

theorem parseReadWriteBytes_leftmost_match_witness:
  "parseReadWriteBytes (''read_bytes '' @ ''.*'')
     (''cache_'' @ ''read_bytes '' @ ''7 samples [bytes] 1 2 3\<newline>read_bytes 9 samples [bytes] 4 5 6\<newline>'')
   = Returns [(''samples_total'', [(samplesHelp, 7)]),
              (''minimum_size_bytes'', [(minimumHelp, 1)]),
              (''maximum_size_bytes'', [(maximumHelp, 2)]),
              (''total_bytes'', [(totalHelp, 3)])]"
proof -
  have leftmost: "\<forall>i<length ''cache_''. \<not> prefix ''read_bytes ''
      (drop i (''cache_'' @ ''read_bytes '' @ ''7 samples [bytes] 1 2 3\<newline>read_bytes 9 samples [bytes] 4 5 6\<newline>''))"
    by (simp add: All_less_Suc)
  have line: "parseReadWriteBytes (''read_bytes '' @ ''.*'')
      (''read_bytes '' @ takeWhile (\<lambda>x. x \<noteq> CHR 0x0A) ''7 samples [bytes] 1 2 3\<newline>read_bytes 9 samples [bytes] 4 5 6\<newline>'')
    = Returns [(''samples_total'', [(samplesHelp, 7)]),
              (''minimum_size_bytes'', [(minimumHelp, 1)]),
              (''maximum_size_bytes'', [(maximumHelp, 2)]),
              (''total_bytes'', [(totalHelp, 3)])]"
    by code_simp
  show ?thesis
    using parseReadWriteBytes_leftmost_match [OF leftmost] line by simp
qed

text \<open>
  A line that holds \<^verbatim>\<open>read_bytes\<close> elsewhere than at its start is selected and sends
  the four metrics of the read direction.
\<close>

theorem parseFile_token_inside_line_counterexample:
  "parseFile ostFiles ''OSS'' ''stats'' ''/proc/fs/lustre/obdfilter/ost4/stats''
      ''A collection of statistics specific to Lustre'' sendMetric []
   = (Returns (),
      [ConstMetric ''OSS'' ''ost4'' ''read_samples_total'' samplesHelp 3,
       ConstMetric ''OSS'' ''ost4'' ''read_minimum_size_bytes'' minimumHelp 10,
       ConstMetric ''OSS'' ''ost4'' ''read_maximum_size_bytes'' maximumHelp 100,
       ConstMetric ''OSS'' ''ost4'' ''read_total_bytes'' totalHelp 150])"
  by code_simp

subsection \<open>The scalar file\<close>

text \<open>
  C7. A scalar file with the content \<^verbatim>\<open>42\<close> and a newline sends exactly one
  metric, of value 42, named after the file, with the directory of the file as node
  name; a scalar file with the content \<^verbatim>\<open>abc\<close> makes \<open>parseFile\<close> return the
  syntax error of \<^verbatim>\<open>strconv.ParseUint\<close> and sends nothing.
\<close>

theorem parseFile_single_scalar:
  fixes path helpText :: string
  assumes "strings_Split path (CHR ''/'') = dirs @ [nodeName, fileName]"
  shows "(ReadFile fs path = Inr ''42\<newline>'' \<longrightarrow>
            parseFile fs nodeType ''single'' path helpText sendMetric ch
              = (Returns (), ch @ [ConstMetric nodeType nodeName fileName helpText 42])) \<and>
         (ReadFile fs path = Inr ''abc'' \<longrightarrow>
            parseFile fs nodeType ''single'' path helpText sendMetric ch
              = (Fails (ErrSyntax ''abc''), ch))"
proof -
  have number: "ParseUint (TrimSpace ''42\<newline>'') = Inr 42"
    by code_simp
  have letters: "ParseUint (TrimSpace ''abc'') = Inl (ErrSyntax ''abc'')"
    by code_simp
  show ?thesis
    by (simp add: parseFile_two_elements [OF assms] number letters sendMetric_def constMetric_def
        float64_exact)
qed

theorem parseFile_single_scalar_witness:
  "parseFile ostFiles ''OSS'' ''single'' ''/proc/fs/lustre/obdfilter/ost1/blocksize''
      ''Filesystem block size in bytes'' sendMetric []
     = (Returns (), [ConstMetric ''OSS'' ''ost1'' ''blocksize'' ''Filesystem block size in bytes'' 42]) \<and>
   parseFile ostFiles ''OSS'' ''single'' ''/proc/fs/lustre/obdfilter/ost2/blocksize''
      ''Filesystem block size in bytes'' sendMetric []
     = (Fails (ErrSyntax ''abc''), [])"
proof -
  have split1: "strings_Split ''/proc/fs/lustre/obdfilter/ost1/blocksize'' (CHR ''/'')
      = [[], ''proc'', ''fs'', ''lustre'', ''obdfilter''] @ [''ost1'', ''blocksize'']"
    by code_simp
  have split2: "strings_Split ''/proc/fs/lustre/obdfilter/ost2/blocksize'' (CHR ''/'')
      = [[], ''proc'', ''fs'', ''lustre'', ''obdfilter''] @ [''ost2'', ''blocksize'']"
    by code_simp
  have file1: "ReadFile ostFiles ''/proc/fs/lustre/obdfilter/ost1/blocksize'' = Inr ''42\<newline>''"
    by code_simp
  have file2: "ReadFile ostFiles ''/proc/fs/lustre/obdfilter/ost2/blocksize'' = Inr ''abc''"
    by code_simp
  from parseFile_single_scalar [OF split1, of ostFiles "''OSS''" "''Filesystem block size in bytes''" "[]"]
    parseFile_single_scalar [OF split2, of ostFiles "''OSS''" "''Filesystem block size in bytes''" "[]"]
    file1 file2
  show ?thesis
    by simp
qed

subsection \<open>The scrape\<close>

lemma forRange_append:
  "forRange (xs @ ys) body ch =
     (case forRange xs body ch of
        (Returns u, ch') \<Rightarrow> forRange ys body ch'
      | (Fails err, ch') \<Rightarrow> (Fails err, ch')
      | (Panics, ch') \<Rightarrow> (Panics, ch'))"
  by (induction xs arbitrary: ch) (auto split: prod.splits outcome.splits)

lemma parseFile_failure_sends_nothing:
  fixes path helpText :: string
  assumes "parseFile fs nodeType metricType path helpText handler ch = (r, ch')"
    and "r \<noteq> Returns ()"
  shows "ch' = ch"
  using assms
  by (auto simp: parseFile_def Let_def split: if_splits option.splits sum.splits outcome.splits)

lemma updatePath_failure_sends_nothing:
  fixes path :: string
  assumes "fst (updatePath fs metric path ch) = Fails err"
  shows "updatePath fs metric path ch = (Fails err, ch)"
proof -
  obtain r ch' where result: "updatePath fs metric path ch = (r, ch')"
    by (cases "updatePath fs metric path ch")
  with assms have failed: "r = Fails err"
    by simp
  from result have "parseFile fs (source metric)
      (if name metric = ''stats'' then ''stats'' else ''single'') path (helpText metric)
      sendMetric ch = (r, ch')"
    by (simp add: updatePath_def)
  then have "ch' = ch"
    by (rule parseFile_failure_sends_nothing) (simp add: failed)
  with result failed show ?thesis
    by simp
qed

text \<open>
  C3. Fail fast. When the templates before \<open>metric\<close> and the paths of \<open>metric\<close> before
  \<open>p\<close> are done and parsing \<open>p\<close> returns an error, \<open>Update\<close> returns that error, and
  the channel holds what was sent before \<open>p\<close> and nothing else: nothing for \<open>p\<close>, for
  the paths after it or for the templates after \<open>metric\<close>, whatever they are.
\<close>

theorem Update_fail_fast:
  assumes "lustreProcMetrics s = ms1 @ metric # ms2"
    and "forRange ms1 (updateMetric s fs) ch = (Returns (), ch1)"
    and "resolve s fs metric = Inr (ps1 @ p # ps2)"
    and "forRange ps1 (updatePath fs metric) ch1 = (Returns (), ch2)"
    and "fst (updatePath fs metric p ch2) = Fails err"
  shows "Update s fs ch = (Fails err, ch2)"
proof -
  have "updatePath fs metric p ch2 = (Fails err, ch2)"
    by (rule updatePath_failure_sends_nothing [OF assms(5)])
  with assms(4) have "forRange (ps1 @ p # ps2) (updatePath fs metric) ch1 = (Fails err, ch2)"
    by (simp add: forRange_append)
  with assms(3) have "updateMetric s fs metric ch1 = (Fails err, ch2)"
    by (simp add: updateMetric_def)
  with assms(1,2) show ?thesis
    by (simp add: Update_def forRange_append)
qed

theorem Update_fail_fast_witness:
  "Update (sourceOf [blocksizeTemplate, statsTemplate]) ostFiles []
     = (Fails (ErrSyntax ''abc''),
        [ConstMetric ''OSS'' ''ost1'' ''blocksize'' ''Filesystem block size in bytes'' 42])"
proof -
  have templates: "lustreProcMetrics (sourceOf [blocksizeTemplate, statsTemplate])
      = [] @ blocksizeTemplate # [statsTemplate]"
    by (simp add: sourceOf_def)
  have before: "forRange [] (updateMetric (sourceOf [blocksizeTemplate, statsTemplate]) ostFiles) []
      = (Returns (), [])"
    by simp
  have three_paths: "resolve (sourceOf [blocksizeTemplate, statsTemplate]) ostFiles blocksizeTemplate
      = Inr ([''/proc/fs/lustre/obdfilter/ost1/blocksize'']
             @ ''/proc/fs/lustre/obdfilter/ost2/blocksize''
             # [''/proc/fs/lustre/obdfilter/ost3/blocksize''])"
    by code_simp
  have first_path: "forRange [''/proc/fs/lustre/obdfilter/ost1/blocksize'']
        (updatePath ostFiles blocksizeTemplate) []
      = (Returns (), [ConstMetric ''OSS'' ''ost1'' ''blocksize'' ''Filesystem block size in bytes'' 42])"
    by code_simp
  have second_path: "fst (updatePath ostFiles blocksizeTemplate ''/proc/fs/lustre/obdfilter/ost2/blocksize''
        [ConstMetric ''OSS'' ''ost1'' ''blocksize'' ''Filesystem block size in bytes'' 42])
      = Fails (ErrSyntax ''abc'')"
    by code_simp
  show ?thesis
    by (rule Update_fail_fast [OF templates before three_paths first_path second_path])
qed

subsection \<open>The expansion of a template\<close>

text \<open>
  The expansion of one directory that cannot be examined or opened adds no path and is
  no error. An error of the expansion is that of a malformed pattern: the one of
  \<open>globWithLimit\<close> itself, or one that the matcher returns.
\<close>

lemma glob_walk_failure:
  "(\<exists>e. Stat fs dir = Inl e) \<or> (\<exists>e. Open fs dir = Some e) \<Longrightarrow>
   glob fs dir entry matches = Inr matches"
  by (auto simp: glob_def split: sum.splits)

lemma matchNames_error:
  "matchNames fs dir pattern names m = Inl err \<Longrightarrow> \<exists>n. Match fs pattern n = Inl err"
  by (induction names arbitrary: m) (auto split: sum.splits)

lemma glob_error:
  "glob fs dir pattern matches = Inl err \<Longrightarrow> \<exists>n. Match fs pattern n = Inl err"
  by (auto simp: glob_def split: sum.splits if_splits option.splits dest: matchNames_error)

lemma globDirs_error:
  "globDirs fs file m matches = Inl err \<Longrightarrow> \<exists>n. Match fs file n = Inl err"
  by (induction m arbitrary: matches) (auto split: sum.splits dest: glob_error)

lemma globWithLimit_error:
  "globWithLimit fs pattern depth = Inl err \<Longrightarrow>
   err = ErrBadPattern \<or> (\<exists>p n. Match fs p n = Inl err)"
proof (induction fs pattern depth rule: globWithLimit.induct)
  case (1 fs pattern depth)
  show ?case
  proof (cases "depth = 10000")
    case True
    with "1.prems" show ?thesis
      by (subst (asm) globWithLimit.simps) simp
  next
    case deep: False
    show ?thesis
    proof (cases "Match fs pattern []")
      case (Inl e)
      with "1.prems" deep show ?thesis
        by (subst (asm) globWithLimit.simps) auto
    next
      case (Inr ok)
      show ?thesis
      proof (cases "hasMeta pattern")
        case False
        with "1.prems" deep Inr show ?thesis
          by (subst (asm) globWithLimit.simps) (auto split: option.splits)
      next
        case meta: True
        let ?dir = "cleanGlobPath (fst (filepath_Split pattern))"
        let ?entry = "snd (filepath_Split pattern)"
        show ?thesis
        proof (cases "hasMeta ?dir")
          case False
          with "1.prems" deep Inr meta have "glob fs ?dir ?entry [] = Inl err"
            by (subst (asm) globWithLimit.simps) (simp add: Let_def)
          then show ?thesis
            by (blast dest: glob_error)
        next
          case dirMeta: True
          show ?thesis
          proof (cases "?dir = pattern")
            case True
            with "1.prems" deep Inr meta dirMeta show ?thesis
              by (subst (asm) globWithLimit.simps) (simp add: Let_def)
          next
            case False
            from "1.prems" deep Inr meta dirMeta False
            have step: "(case globWithLimit fs ?dir (depth + 1) of Inl err \<Rightarrow> Inl err
                | Inr m \<Rightarrow> globDirs fs ?entry m []) = Inl err"
              by (subst (asm) globWithLimit.simps) (simp add: Let_def)
            show ?thesis
            proof (cases "globWithLimit fs ?dir (depth + 1)")
              case (Inl e)
              with step have "globWithLimit fs ?dir (depth + 1) = Inl err"
                by simp
              with "1.IH" deep \<open>Match fs pattern [] = Inr ok\<close> meta dirMeta False
              show ?thesis
                by simp
            next
              case (Inr m)
              with step have "globDirs fs ?entry m [] = Inl err"
                by simp
              then show ?thesis
                by (blast dest: globDirs_error)
            qed
          qed
        qed
      qed
    qed
  qed
qed

text \<open>
  C5, as the code has it. When the templates before \<open>metric\<close> are done: if the
  expansion of \<open>metric\<close> has no match, the template is skipped and the scrape goes on
  with the next template on the same channel. A failure of the walk is no failure of
  the expansion: a directory that cannot be examined or opened adds no path and no
  error. The expansion fails on a malformed pattern only, and \<open>Update\<close> then returns
  that error and sends nothing more.
\<close>

theorem Update_resolution:
  assumes "lustreProcMetrics s = ms1 @ metric # ms2"
    and "forRange ms1 (updateMetric s fs) ch = (Returns (), ch1)"
  shows "(resolve s fs metric = Inr [] \<longrightarrow>
            Update s fs ch = forRange ms2 (updateMetric s fs) ch1) \<and>
         (\<forall>dir entry matches.
            (\<exists>e. Stat fs dir = Inl e) \<or> (\<exists>e. Open fs dir = Some e) \<longrightarrow>
            glob fs dir entry matches = Inr matches) \<and>
         (\<forall>err. resolve s fs metric = Inl err \<longrightarrow>
            Update s fs ch = (Fails err, ch1) \<and>
            (err = ErrBadPattern \<or> (\<exists>p n. Match fs p n = Inl err)))"
proof (intro conjI allI impI)
  assume "resolve s fs metric = Inr []"
  with assms show "Update s fs ch = forRange ms2 (updateMetric s fs) ch1"
    by (simp add: Update_def forRange_append updateMetric_def)
next
  fix dir entry :: string and matches :: "string list"
  assume "(\<exists>e. Stat fs dir = Inl e) \<or> (\<exists>e. Open fs dir = Some e)"
  then show "glob fs dir entry matches = Inr matches"
    by (rule glob_walk_failure)
next
  fix err
  assume failed: "resolve s fs metric = Inl err"
  with assms show "Update s fs ch = (Fails err, ch1)"
    by (simp add: Update_def forRange_append updateMetric_def)
  from failed show "err = ErrBadPattern \<or> (\<exists>p n. Match fs p n = Inl err)"
    unfolding resolve_def Glob_def by (rule globWithLimit_error)
qed

theorem Update_resolution_witness:
  "Update (sourceOf [kbytesfreeTemplate]) ostFiles [] = (Returns (), []) \<and>
   Update (sourceOf [kbytesfreeTemplate, malformedTemplate, statsTemplate]) ostFiles []
     = (Fails ErrBadPattern, [])"
proof -
  have only: "lustreProcMetrics (sourceOf [kbytesfreeTemplate]) = [] @ kbytesfreeTemplate # []"
    by (simp add: sourceOf_def)
  have start: "forRange [] (updateMetric (sourceOf [kbytesfreeTemplate]) ostFiles) [] = (Returns (), [])"
    by simp
  have no_match: "resolve (sourceOf [kbytesfreeTemplate]) ostFiles kbytesfreeTemplate = Inr []"
    by code_simp
  have second: "lustreProcMetrics (sourceOf [kbytesfreeTemplate, malformedTemplate, statsTemplate])
      = [kbytesfreeTemplate] @ malformedTemplate # [statsTemplate]"
    by (simp add: sourceOf_def)
  have skipped: "forRange [kbytesfreeTemplate]
        (updateMetric (sourceOf [kbytesfreeTemplate, malformedTemplate, statsTemplate]) ostFiles) []
      = (Returns (), [])"
    by code_simp
  have malformed: "resolve (sourceOf [kbytesfreeTemplate, malformedTemplate, statsTemplate]) ostFiles
        malformedTemplate = Inl ErrBadPattern"
    by code_simp
  from Update_resolution [OF only start] no_match Update_resolution [OF second skipped] malformed
  show ?thesis
    by simp
qed

text \<open>
  The directory of the targets cannot be opened (permission denied): the expansion of
  both templates is empty, \<open>Update\<close> returns no error and sends nothing.
\<close>

theorem Update_permission_denied_counterexample:
  "Open lockedFiles ''/proc/fs/lustre/obdfilter'' = Some (ErrOS ''permission denied'') \<and>
   Update (sourceOf [blocksizeTemplate, statsTemplate]) lockedFiles [] = (Returns (), [])"
  by code_simp

subsection \<open>Resolving twice\<close>

lemma sort_same_names:
  fixes xs ys :: "string list"
  assumes "mset xs = mset ys"
  shows "sort xs = sort ys"
  using assms by (metis properties_for_sort sorted_sort mset_sort)

lemma matchNames_same:
  "Match fs' = Match fs \<Longrightarrow>
   matchNames fs' dir pattern names m = matchNames fs dir pattern names m"
  by (induction names arbitrary: m) (auto split: sum.splits)

lemma glob_same:
  assumes "Match fs' = Match fs" and "Stat fs' = Stat fs" and "Open fs' = Open fs"
    and "\<forall>dir. mset (fst (Readdirnames fs' dir)) = mset (fst (Readdirnames fs dir))"
  shows "glob fs' dir pattern matches = glob fs dir pattern matches"
proof -
  have "sort (fst (Readdirnames fs' dir)) = sort (fst (Readdirnames fs dir))"
    using assms(4) by (intro sort_same_names) simp
  with assms(1-3) show ?thesis
    by (auto simp: glob_def matchNames_same [OF assms(1)] split: sum.splits option.splits)
qed

lemma globDirs_same:
  assumes "Match fs' = Match fs" and "Stat fs' = Stat fs" and "Open fs' = Open fs"
    and "\<forall>dir. mset (fst (Readdirnames fs' dir)) = mset (fst (Readdirnames fs dir))"
  shows "globDirs fs' entry m matches = globDirs fs entry m matches"
  by (induction m arbitrary: matches) (auto simp: glob_same [OF assms] split: sum.splits)

lemma globWithLimit_unfold:
  "globWithLimit f pattern depth =
     (if depth = 10000 then Inl ErrBadPattern
      else (case Match f pattern [] of
              Inl err \<Rightarrow> Inl err
            | Inr ok \<Rightarrow>
                if \<not> hasMeta pattern then
                  (case Lstat f pattern of Some err \<Rightarrow> Inr [] | None \<Rightarrow> Inr [pattern])
                else if \<not> hasMeta (cleanGlobPath (fst (filepath_Split pattern)))
                  then glob f (cleanGlobPath (fst (filepath_Split pattern))) (snd (filepath_Split pattern)) []
                else if cleanGlobPath (fst (filepath_Split pattern)) = pattern then Inl ErrBadPattern
                else (case globWithLimit f (cleanGlobPath (fst (filepath_Split pattern))) (depth + 1) of
                        Inl err \<Rightarrow> Inl err
                      | Inr m \<Rightarrow> globDirs f (snd (filepath_Split pattern)) m [])))"
  by (subst globWithLimit.simps) (simp add: Let_def split: sum.split)

lemma globWithLimit_same:
  assumes "Match fs' = Match fs" and "Lstat fs' = Lstat fs" and "Stat fs' = Stat fs"
    and "Open fs' = Open fs"
    and "\<forall>dir. mset (fst (Readdirnames fs' dir)) = mset (fst (Readdirnames fs dir))"
  shows "globWithLimit fs' pattern depth = globWithLimit fs pattern depth"
  using assms
proof (induction fs pattern depth rule: globWithLimit.induct)
  case (1 fs pattern depth)
  note same = "1.prems"
  have dirs: "glob fs' dir entry matches = glob fs dir entry matches"
    "globDirs fs' entry m matches = globDirs fs entry m matches" for dir entry m matches
    by (rule glob_same [OF same(1,3,4,5)], rule globDirs_same [OF same(1,3,4,5)])
  let ?dir = "cleanGlobPath (fst (filepath_Split pattern))"
  let ?entry = "snd (filepath_Split pattern)"
  show ?case
  proof (cases "depth \<noteq> 10000 \<and> hasMeta pattern \<and> hasMeta ?dir \<and> ?dir \<noteq> pattern
      \<and> (\<exists>ok. Match fs pattern [] = Inr ok)")
    case True
    then obtain ok where ok: "Match fs pattern [] = Inr ok"
      by blast
    have inner: "globWithLimit fs' ?dir (depth + 1) = globWithLimit fs ?dir (depth + 1)"
    proof (rule "1.IH" [of ok])
      show "depth \<noteq> 10000" "\<not> \<not> hasMeta pattern" "\<not> \<not> hasMeta ?dir" "?dir \<noteq> pattern"
        using True by simp_all
    qed (simp_all add: ok same)
    have "globWithLimit f pattern depth =
        (case globWithLimit f ?dir (depth + 1) of
           Inl err \<Rightarrow> Inl err | Inr m \<Rightarrow> globDirs f ?entry m [])"
      if "Match f = Match fs" for f
      using True ok that by (simp add: globWithLimit_unfold [of f pattern depth])
    from this [of fs'] this [of fs] show ?thesis
      by (simp add: same(1) inner dirs(2) split: sum.split)
  next
    case False
    then consider "depth = 10000" | "\<not> hasMeta pattern" | "\<not> hasMeta ?dir" | "?dir = pattern"
      | e where "Match fs pattern [] = Inl e"
      by (cases "Match fs pattern []") auto
    then show ?thesis
    proof cases
      case 1
      have "globWithLimit f pattern depth = Inl ErrBadPattern" for f
        by (subst globWithLimit_unfold) (simp add: 1)
      then show ?thesis
        by simp
    next
      case 2
      have "globWithLimit f pattern depth =
          (if depth = 10000 then Inl ErrBadPattern
           else (case Match f pattern [] of
                   Inl err \<Rightarrow> Inl err
                 | Inr ok \<Rightarrow> (case Lstat f pattern of Some err \<Rightarrow> Inr [] | None \<Rightarrow> Inr [pattern])))" for f
        by (subst globWithLimit_unfold) (simp add: 2 split: sum.split)
      then show ?thesis
        by (simp add: same(1,2) split: sum.split)
    next
      case 3
      have "globWithLimit f pattern depth =
          (if depth = 10000 then Inl ErrBadPattern
           else (case Match f pattern [] of
                   Inl err \<Rightarrow> Inl err
                 | Inr ok \<Rightarrow>
                     if \<not> hasMeta pattern then
                       (case Lstat f pattern of Some err \<Rightarrow> Inr [] | None \<Rightarrow> Inr [pattern])
                     else glob f ?dir ?entry []))" for f
        by (subst globWithLimit_unfold) (simp add: 3 split: sum.split)
      then show ?thesis
        by (simp add: same(1,2) dirs(1) split: sum.split)
    next
      case 4
      have "globWithLimit f pattern depth =
          (if depth = 10000 then Inl ErrBadPattern
           else (case Match f pattern [] of
                   Inl err \<Rightarrow> Inl err
                 | Inr ok \<Rightarrow>
                     if \<not> hasMeta pattern then
                       (case Lstat f pattern of Some err \<Rightarrow> Inr [] | None \<Rightarrow> Inr [pattern])
                     else if \<not> hasMeta ?dir then glob f ?dir ?entry []
                     else Inl ErrBadPattern))" for f
        by (subst globWithLimit_unfold) (simp add: 4 split: sum.split)
      then show ?thesis
        by (simp add: same(1,2) dirs(1) split: sum.split)
    next
      case 5
      have "globWithLimit f pattern depth =
          (if depth = 10000 then Inl ErrBadPattern else Inl e)" if "Match f = Match fs" for f
        by (subst globWithLimit_unfold) (simp add: 5 that)
      from this [of fs'] this [of fs] show ?thesis
        by (simp add: same(1))
    qed
  qed
qed

text \<open>
  C9. Two resolutions of a template against the same files return the same paths in
  the same order. The files are the same when every path answers \<^verbatim>\<open>os.Lstat\<close>,
  \<^verbatim>\<open>os.Stat\<close> and \<^verbatim>\<open>os.Open\<close> as before and every directory holds the same
  names; the order in which the operating system lists them, and whether the listing
  ends with an error, may differ between the two runs. (The matcher is the same.)
\<close>

theorem resolve_idempotent:
  assumes "Match fs' = Match fs" and "Lstat fs' = Lstat fs" and "Stat fs' = Stat fs"
    and "Open fs' = Open fs"
    and "\<forall>dir. mset (fst (Readdirnames fs' dir)) = mset (fst (Readdirnames fs dir))"
  shows "resolve s fs' metric = resolve s fs metric"
  unfolding resolve_def Glob_def by (rule globWithLimit_same [OF assms])

theorem resolve_idempotent_witness:
  "resolve (sourceOf [blocksizeTemplate, statsTemplate]) relistedFiles statsTemplate
     = resolve (sourceOf [blocksizeTemplate, statsTemplate]) ostFiles statsTemplate \<and>
   resolve (sourceOf [blocksizeTemplate, statsTemplate]) ostFiles statsTemplate
     = Inr [''/proc/fs/lustre/obdfilter/ost1/stats'',
            ''/proc/fs/lustre/obdfilter/ost2/stats'',
            ''/proc/fs/lustre/obdfilter/ost3/stats'',
            ''/proc/fs/lustre/obdfilter/ost4/stats'']"
proof -
  have same: "Match relistedFiles = Match ostFiles" "Lstat relistedFiles = Lstat ostFiles"
    "Stat relistedFiles = Stat ostFiles" "Open relistedFiles = Open ostFiles"
    by (simp_all add: relistedFiles_def)
  have names: "\<forall>dir. mset (fst (Readdirnames relistedFiles dir))
      = mset (fst (Readdirnames ostFiles dir))"
    by (simp add: relistedFiles_def)
  have paths: "resolve (sourceOf [blocksizeTemplate, statsTemplate]) ostFiles statsTemplate
     = Inr [''/proc/fs/lustre/obdfilter/ost1/stats'',
            ''/proc/fs/lustre/obdfilter/ost2/stats'',
            ''/proc/fs/lustre/obdfilter/ost3/stats'',
            ''/proc/fs/lustre/obdfilter/ost4/stats'']"
    by code_simp
  from resolve_idempotent [OF same names] paths show ?thesis
    by simp
qed

end
